theory Spec2Isabelle
  imports Main "HOL-Library.Word" "HOL-Library.AList"
begin

section \<open>Go values and the standard-library functions the code calls\<close>

text \<open>
  Go strings are byte sequences; they are modelled as \<open>string\<close> (a list of 8-bit
  characters).  \<open>int64\<close> and \<open>int32\<close> are machine words: \<open>+\<close> and \<open>-\<close> wrap around
  as Go's do, \<open>sint\<close> reads the signed value, and every comparison of the source is a
  comparison of signed values.
\<close>

type_synonym int64 = "64 word"
type_synonym int32 = "32 word"

subsection \<open>Package strings (on ASCII)\<close>

text \<open>
  \<open>unicode.IsSpace\<close> on the ASCII range: tab, line feed, vertical tab, form feed,
  carriage return and space.  The case mappings are the ASCII branches of
  \<open>strings.ToLower\<close>, \<open>strings.ToUpper\<close> and \<open>strings.EqualFold\<close>; bytes outside
  \<open>A..Z\<close> and \<open>a..z\<close> are left alone.
\<close>

definition isSpace :: "char \<Rightarrow> bool" where
  "isSpace c = (let n = (of_char c :: int) in (9 \<le> n \<and> n \<le> 13) \<or> n = 32)"

definition TrimSpace :: "string \<Rightarrow> string" where
  "TrimSpace s = rev (dropWhile isSpace (rev (dropWhile isSpace s)))"

definition toLowerByte :: "char \<Rightarrow> char" where
  "toLowerByte c =
     (let n = (of_char c :: int) in if 65 \<le> n \<and> n \<le> 90 then char_of (n + 32) else c)"

definition toUpperByte :: "char \<Rightarrow> char" where
  "toUpperByte c =
     (let n = (of_char c :: int) in if 97 \<le> n \<and> n \<le> 122 then char_of (n - 32) else c)"

definition ToLower :: "string \<Rightarrow> string" where
  "ToLower s = map toLowerByte s"

definition ToUpper :: "string \<Rightarrow> string" where
  "ToUpper s = map toUpperByte s"

definition EqualFold :: "string \<Rightarrow> string \<Rightarrow> bool" where
  "EqualFold s t = (ToLower s = ToLower t)"

fun Join :: "string list \<Rightarrow> string \<Rightarrow> string" where
  "Join [] sep = []"
| "Join [x] sep = x"
| "Join (x # y # ys) sep = x @ sep @ Join (y # ys) sep"

subsection \<open>Package strconv: \<open>ParseInt(s, 10, 64)\<close> and \<open>FormatInt(i, 10)\<close>\<close>

datatype NumError = ErrSyntax | ErrRange

definition isDigit :: "char \<Rightarrow> bool" where
  "isDigit c = (let n = (of_char c :: int) in 48 \<le> n \<and> n \<le> 57)"

definition digitVal :: "char \<Rightarrow> int" where
  "digitVal c = of_char c - 48"

text \<open>
  \<open>ParseUint\<close> in base 10: the empty string and any byte that is not a digit are a
  syntax error.  The value is kept unbounded here; \<open>ParseInt\<close> below cuts it off where
  Go's \<open>ParseUint\<close> would have saturated, with the same result.
\<close>

definition ParseUintDec :: "string \<Rightarrow> int option" where
  "ParseUintDec s =
     (if s = [] \<or> \<not> list_all isDigit s then None
      else Some (foldl (\<lambda>a c. 10 * a + digitVal c) 0 s))"

definition ParseInt :: "string \<Rightarrow> int64 \<times> NumError option" where
  "ParseInt s =
     (if s = [] then (0, Some ErrSyntax)
      else
        let neg = (hd s = CHR ''-'');
            s' = (if hd s = CHR ''+'' \<or> hd s = CHR ''-'' then tl s else s)
        in case ParseUintDec s' of
             None \<Rightarrow> (0, Some ErrSyntax)
           | Some un \<Rightarrow>
               if \<not> neg \<and> 2 ^ 63 \<le> un then (word_of_int (2 ^ 63 - 1), Some ErrRange)
               else if neg \<and> 2 ^ 63 < un then (word_of_int (- (2 ^ 63)), Some ErrRange)
               else (if neg then - word_of_int un else word_of_int un, None))"

function digitsOf :: "int \<Rightarrow> string" where
  "digitsOf n =
     (if n < 10 then [char_of (48 + n)] else digitsOf (n div 10) @ [char_of (48 + n mod 10)])"
  by pat_completeness auto
termination
  by (relation "measure nat") auto

declare digitsOf.simps [simp del]

definition FormatInt :: "int64 \<Rightarrow> string" where
  "FormatInt i = (if sint i < 0 then CHR ''-'' # digitsOf (- sint i) else digitsOf (sint i))"

subsection \<open>Package encoding/hex and the hash functions\<close>

definition hexdigit :: "int \<Rightarrow> char" where
  "hexdigit n = ''0123456789abcdef'' ! nat n"

definition EncodeToString :: "string \<Rightarrow> string" where
  "EncodeToString bs =
     concat (map (\<lambda>b. [hexdigit (of_char b div 16), hexdigit (of_char b mod 16)]) bs)"

text \<open>
  \<open>crypto/sha256\<close> and \<open>crypto/hmac\<close> are not part of the repository: the two functions
  are parameters of everything that signs.  \<open>HMAC_SHA256 key msg\<close> stands for
  \<open>hmac.New(sha256.New, key)\<close>, \<open>Write(msg)\<close>, \<open>Sum(nil)\<close>.
\<close>

record crypto =
  Sum256 :: "string \<Rightarrow> string"
  HMAC_SHA256 :: "string \<Rightarrow> string \<Rightarrow> string"

section \<open>Error codes (\<open>pkg/errcode\<close>, as the sources use them)\<close>

datatype errcode =
    ErrForbidden
  | ErrUnauthorized
  | ErrInvalidParam
  | ErrInternalServer
  | ErrConvNotFound
  | ErrTokenInvalid
  | ErrTokenMissing

section \<open>Internal service authentication (\<open>internal/middleware/internal_auth.go\<close>)\<close>

definition InternalServiceNameHeader :: string where
  "InternalServiceNameHeader = ''X-Service-Name''"

definition InternalTimestampHeader :: string where
  "InternalTimestampHeader = ''X-Timestamp''"

definition InternalSignatureHeader :: string where
  "InternalSignatureHeader = ''X-Signature''"

definition InternalUserIdHeader :: string where
  "InternalUserIdHeader = ''X-User-Id''"

definition InternalPlatformIdHeader :: string where
  "InternalPlatformIdHeader = ''X-Platform-Id''"

text \<open>The \<open>InternalAuth\<close> part of \<open>config.GlobalConfig\<close>; the global may be \<open>nil\<close>.\<close>

record InternalAuthConfig =
  Enabled :: bool
  Secret :: string
  AllowedServices :: "string list"
  MaxSkewSeconds :: int64

text \<open>
  What the middleware reads of a request: \<open>GetHeader\<close> gives the empty string for a
  header that is absent.
\<close>

record RequestContext =
  GetHeader :: "string \<Rightarrow> string"
  Method :: string
  Path :: string
  Body :: string

fun inAllowed :: "string \<Rightarrow> string list \<Rightarrow> bool" where
  "inAllowed serviceName [] = False"
| "inAllowed serviceName (s # ss) =
     (if EqualFold (TrimSpace s) serviceName then True else inAllowed serviceName ss)"

definition isServiceAllowed :: "string \<Rightarrow> string list \<Rightarrow> bool" where
  "isServiceAllowed serviceName allowed =
     (if length allowed = 0 then True else inAllowed serviceName allowed)"

definition absInt64 :: "int64 \<Rightarrow> int64" where
  "absInt64 v = (if sint v < 0 then - v else v)"

definition signInternalRequest ::
  "crypto \<Rightarrow> string \<Rightarrow> string \<Rightarrow> string \<Rightarrow> string \<Rightarrow> string \<Rightarrow> string \<Rightarrow> string" where
  "signInternalRequest K secret serviceName timestamp method path body =
     (let bodyHash = EncodeToString (Sum256 K body);
          payload = Join [serviceName, timestamp, ToUpper method, path, bodyHash] ''\<newline>''
      in EncodeToString (HMAC_SHA256 K secret payload))"

text \<open>\<open>now\<close> is \<open>time.Now().Unix()\<close>.\<close>

definition validateInternalRequest ::
  "crypto \<Rightarrow> InternalAuthConfig option \<Rightarrow> int64 \<Rightarrow> RequestContext \<Rightarrow> errcode + string" where
  "validateInternalRequest K config now c =
     (case config of
        None \<Rightarrow> Inl ErrForbidden
      | Some cfg \<Rightarrow>
          if \<not> Enabled cfg then Inl ErrForbidden
          else if TrimSpace (Secret cfg) = [] then Inl ErrForbidden
          else
            let serviceName = TrimSpace (GetHeader c InternalServiceNameHeader);
                tsStr = TrimSpace (GetHeader c InternalTimestampHeader);
                signature = TrimSpace (GetHeader c InternalSignatureHeader)
            in
              if serviceName = [] \<or> tsStr = [] \<or> signature = [] then Inl ErrUnauthorized
              else if \<not> isServiceAllowed serviceName (AllowedServices cfg) then Inl ErrForbidden
              else
                (case ParseInt tsStr of
                   (ts, Some err) \<Rightarrow> Inl ErrUnauthorized
                 | (ts, None) \<Rightarrow>
                     if sint (MaxSkewSeconds cfg) < sint (absInt64 (now - ts))
                     then Inl ErrUnauthorized
                     else if ToLower signature \<noteq>
                               signInternalRequest K (Secret cfg) serviceName tsStr
                                 (Method c) (Path c) (Body c)
                     then Inl ErrUnauthorized
                     else Inr serviceName))"

text \<open>
  \<open>InternalAuthAsUser\<close>: after the service check, the acting user and platform are read
  from the headers.  The platform defaults to 5, which the source names the Web
  platform.  \<open>strconv.Atoi\<close> is \<open>ParseInt(s, 10, 0)\<close> on a 64-bit \<open>int\<close>.
\<close>

definition WebPlatformId :: int64 where
  "WebPlatformId = 5"

record InternalUserContext =
  internal_service_name :: string
  user_id :: string
  platform_id :: int64

definition InternalAuthAsUser ::
  "crypto \<Rightarrow> InternalAuthConfig option \<Rightarrow> int64 \<Rightarrow> RequestContext \<Rightarrow> errcode + InternalUserContext" where
  "InternalAuthAsUser K config now c =
     (case validateInternalRequest K config now c of
        Inl authErr \<Rightarrow> Inl authErr
      | Inr serviceName \<Rightarrow>
          let userId = TrimSpace (GetHeader c InternalUserIdHeader) in
          if userId = [] then Inl ErrUnauthorized
          else
            let platformIdStr = TrimSpace (GetHeader c InternalPlatformIdHeader) in
            if platformIdStr \<noteq> [] then
              (case ParseInt platformIdStr of
                 (pid, Some err) \<Rightarrow> Inl ErrInvalidParam
               | (pid, None) \<Rightarrow>
                   if sint pid \<le> 0 then Inl ErrInvalidParam
                   else Inr \<lparr>internal_service_name = serviceName, user_id = userId,
                              platform_id = pid\<rparr>)
            else Inr \<lparr>internal_service_name = serviceName, user_id = userId,
                       platform_id = WebPlatformId\<rparr>)"

section \<open>Conversation service (\<open>internal/service\<close>, \<open>ConversationService\<close>)\<close>

text \<open>
  A Go \<open>error\<close> is either one of the error codes or an error a callee (a repository, a
  library) returned, kept by its message.
\<close>

datatype error = CodeError errcode | OtherError string

text \<open>
  The entity structs, with the fields the service reads and writes.  The three
  conversation structs share their first seven fields; they are modelled as one record
  and its extensions, so that a field keeps its name in each of them.
\<close>

record Conversation =
  ConversationId :: string
  ConversationType :: int32
  PeerUserId :: string
  GroupId :: string
  RecvMsgOpt :: int32
  IsPinned :: bool
  UpdatedAt :: int64

record ConversationWithSeq = Conversation +
  UnreadCount :: int64
  MaxSeq :: int64
  ReadSeq :: int64

record 'mi ConversationInfo = ConversationWithSeq +
  LastMessage :: "'mi option"

record SeqConversation =
  SeqConversation_MaxSeq :: int64

record SeqUser =
  SeqUser_ReadSeq :: int64

datatype update_value = Int32Value int32 | BoolValue bool

text \<open>
  The repositories are not part of the sources: each method is a parameter.  A method
  that returns a pointer and an error is a pair of options (\<open>None\<close> for \<open>nil\<close>).  The
  storage the one writing method works on is a state \<open>'db\<close>, passed in and returned.
  \<open>'m\<close> is \<open>entity.Message\<close>, \<open>'mi\<close> is \<open>entity.MessageInfo\<close>.
\<close>

record ('db, 'm, 'mi) Repositories =
  GetUserConversationsWithSeq :: "string \<Rightarrow> ConversationWithSeq list \<times> string option"
  GetUserConversationsWithSeqPage ::
    "string \<Rightarrow> int \<Rightarrow> int64 \<Rightarrow> string \<Rightarrow> ConversationWithSeq list \<times> string option"
  BatchGetByConvSeq :: "(string \<times> int64) list \<Rightarrow> (string \<rightharpoonup> 'm) \<times> string option"
  ToMessageInfo :: "'m \<Rightarrow> 'mi"
  GetByOwnerAndConvId :: "string \<Rightarrow> string \<Rightarrow> Conversation option \<times> string option"
  GetConversationSeqInfo :: "string \<Rightarrow> SeqConversation option \<times> string option"
  GetSeqUser :: "string \<Rightarrow> string \<Rightarrow> SeqUser option \<times> string option"
  Update :: "'db \<Rightarrow> string \<Rightarrow> string \<Rightarrow> (string \<times> update_value) list \<Rightarrow> 'db \<times> string option"





text \<open>
  \<open>buildConversationInfos\<close>: the map of the conversations' maximal sequence numbers is
  built in list order (a later row of the same conversation overwrites an earlier one),
  one batched read gets the last messages, and every row is copied field by field.
\<close>

definition convMaxSeqOf :: "ConversationWithSeq list \<Rightarrow> (string \<times> int64) list" where
  "convMaxSeqOf convWithSeqs =
     foldl (\<lambda>m conv. if 0 < sint (MaxSeq conv)
                      then AList.update (ConversationId conv) (MaxSeq conv) m else m)
       [] convWithSeqs"

definition toInfo :: "'mi option \<Rightarrow> ConversationWithSeq \<Rightarrow> 'mi ConversationInfo" where
  "toInfo lastMsg conv =
     \<lparr>ConversationId = ConversationId conv, ConversationType = ConversationType conv,
      PeerUserId = PeerUserId conv, GroupId = GroupId conv, RecvMsgOpt = RecvMsgOpt conv,
      IsPinned = IsPinned conv, UpdatedAt = UpdatedAt conv, UnreadCount = UnreadCount conv,
      MaxSeq = MaxSeq conv, ReadSeq = ReadSeq conv, LastMessage = lastMsg\<rparr>"

definition buildConversationInfos ::
  "('db, 'm, 'mi) Repositories \<Rightarrow> string \<Rightarrow> ConversationWithSeq list \<Rightarrow> bool \<Rightarrow>
     error + 'mi ConversationInfo list" where
  "buildConversationInfos R userId convWithSeqs withLastMessage =
     (case (if withLastMessage then BatchGetByConvSeq R (convMaxSeqOf convWithSeqs)
            else (Map.empty, None)) of
        (lastMsgMap, Some err) \<Rightarrow> Inl (CodeError ErrInternalServer)
      | (lastMsgMap, None) \<Rightarrow>
          Inr (map (\<lambda>conv. toInfo (map_option (ToMessageInfo R) (lastMsgMap (ConversationId conv))) conv)
                 convWithSeqs))"

definition GetAllUserConversations ::
  "('db, 'm, 'mi) Repositories \<Rightarrow> string \<Rightarrow> bool \<Rightarrow> error + 'mi ConversationInfo list" where
  "GetAllUserConversations R userId withLastMessage =
     (case GetUserConversationsWithSeq R userId of
        (convWithSeqs, Some err) \<Rightarrow> Inl (CodeError ErrInternalServer)
      | (convWithSeqs, None) \<Rightarrow> buildConversationInfos R userId convWithSeqs withLastMessage)"



text \<open>
  \<open>GetConversation\<close>: the errors of the two sequence reads are dropped, and a missing
  row counts as sequence number 0.
\<close>

definition GetConversation ::
  "('db, 'm, 'mi) Repositories \<Rightarrow> string \<Rightarrow> string \<Rightarrow> error + 'mi ConversationInfo" where
  "GetConversation R userId conversationId =
     (case GetByOwnerAndConvId R userId conversationId of
        (conv, Some err) \<Rightarrow> Inl (CodeError ErrInternalServer)
      | (None, None) \<Rightarrow> Inl (CodeError ErrConvNotFound)
      | (Some conv, None) \<Rightarrow>
          let seqConv = fst (GetConversationSeqInfo R conversationId);
              seqUser = fst (GetSeqUser R userId conversationId);
              maxSeq = (case seqConv of Some sc \<Rightarrow> SeqConversation_MaxSeq sc | None \<Rightarrow> 0);
              readSeq = (case seqUser of Some su \<Rightarrow> SeqUser_ReadSeq su | None \<Rightarrow> 0);
              unreadCount0 = maxSeq - readSeq;
              unreadCount = (if sint unreadCount0 < 0 then 0 else unreadCount0)
          in Inr \<lparr>ConversationId = ConversationId conv, ConversationType = ConversationType conv,
                  PeerUserId = PeerUserId conv, GroupId = GroupId conv, RecvMsgOpt = RecvMsgOpt conv,
                  IsPinned = IsPinned conv, UpdatedAt = UpdatedAt conv, UnreadCount = unreadCount,
                  MaxSeq = maxSeq, ReadSeq = readSeq, LastMessage = None\<rparr>)"

record UpdateConversationRequest =
  Req_RecvMsgOpt :: "int32 option"
  Req_IsPinned :: "bool option"

text \<open>
  \<open>UpdateConversation\<close>: the map of column updates is an association list (the two
  keys differ, so its length is the map's).  The storage is returned as the call to
  \<open>convRepo.Update\<close> leaves it, or untouched when no call is made.
\<close>

definition updatesOf :: "UpdateConversationRequest \<Rightarrow> (string \<times> update_value) list" where
  "updatesOf req =
     (let updates0 = (case Req_RecvMsgOpt req of
                        Some v \<Rightarrow> AList.update ''recv_msg_opt'' (Int32Value v) []
                      | None \<Rightarrow> [])
      in case Req_IsPinned req of
           Some b \<Rightarrow> AList.update ''is_pinned'' (BoolValue b) updates0
         | None \<Rightarrow> updates0)"

definition UpdateConversation ::
  "('db, 'm, 'mi) Repositories \<Rightarrow> 'db \<Rightarrow> string \<Rightarrow> string \<Rightarrow> UpdateConversationRequest \<Rightarrow>
     'db \<times> error option" where
  "UpdateConversation R db userId conversationId req =
     (let updates = updatesOf req in
      if length updates = 0 then (db, None)
      else case Update R db userId conversationId updates of
             (db', Some err) \<Rightarrow> (db', Some (CodeError ErrInternalServer))
           | (db', None) \<Rightarrow> (db', None))"

text \<open>
  \<open>GetMaxReadSeq\<close> returns the repository's error as it is.  A \<open>nil\<close> sequence row
  without an error would be dereferenced: that panic is the result \<open>None\<close>.
\<close>

definition GetMaxReadSeq ::
  "('db, 'm, 'mi) Repositories \<Rightarrow> string \<Rightarrow> string \<Rightarrow> (error + int64 \<times> int64) option" where
  "GetMaxReadSeq R userId conversationId =
     (case GetConversationSeqInfo R conversationId of
        (seqConv, Some err) \<Rightarrow> Some (Inl (OtherError err))
      | (None, None) \<Rightarrow> None
      | (Some seqConv, None) \<Rightarrow>
          let readSeq = (case fst (GetSeqUser R userId conversationId) of
                           Some seqUser \<Rightarrow> SeqUser_ReadSeq seqUser
                         | None \<Rightarrow> 0)
          in Some (Inr (SeqConversation_MaxSeq seqConv, readSeq)))"

section \<open>Conversation handlers (\<open>internal/handler\<close>, \<open>ConversationHandler\<close>)\<close>



definition Handler_GetConversation ::
  "('db, 'm, 'mi) Repositories \<Rightarrow> string \<Rightarrow> (string \<Rightarrow> string) \<Rightarrow> error + 'mi ConversationInfo" where
  "Handler_GetConversation R userId query =
     (if userId = [] then Inl (CodeError ErrUnauthorized)
      else let conversationId = query ''conversation_id'' in
           if conversationId = [] then Inl (CodeError ErrInvalidParam)
           else GetConversation R userId conversationId)"




definition Handler_UpdateConversation ::
  "('db, 'm, 'mi) Repositories \<Rightarrow> 'db \<Rightarrow> string \<Rightarrow> (string \<Rightarrow> string) \<Rightarrow>
     UpdateConversationRequest option \<Rightarrow> 'db \<times> error option" where
  "Handler_UpdateConversation R db userId query bound =
     (if userId = [] then (db, Some (CodeError ErrUnauthorized))
      else let conversationId = query ''conversation_id'' in
           if conversationId = [] then (db, Some (CodeError ErrInvalidParam))
           else case bound of
                  None \<Rightarrow> (db, Some (CodeError ErrInvalidParam))
                | Some req \<Rightarrow> UpdateConversation R db userId conversationId req)"

section \<open>Actors (\<open>sdk/actor.go\<close>)\<close>

text \<open>
  \<open>RoleNone\<close> is the zero value of the role's Go type, the role of \<open>new(common.Actor)\<close>.
\<close>

datatype Role = RoleNone | RoleUser | RoleAgent

record Actor =
  Actor_Id :: int64
  Actor_Role :: Role

datatype actor_error = ErrInvalidRole | ErrInvalidUserId

definition newActor :: Actor where
  "newActor = \<lparr>Actor_Id = 0, Actor_Role = RoleNone\<rparr>"

text \<open>
  Modelled from the spec: \<open>common.Actor\<close> and its methods \<open>ToIMUserId\<close> and
  \<open>FromIMUserId\<close> are not among the sources.  The canonical string form is the spec's
  role tag, underscores and decimal id; the two prefixes are the ones of the ids in
  \<open>sdk/actor_test.go\<close> (\<open>u___12\<close> for user 12, \<open>ag__34\<close> for agent 34).  The id is
  written by \<open>FormatInt\<close> and read by \<open>ParseInt\<close>.  \<open>FromIMUserId\<close> has a pointer
  receiver: it gets the actor and returns it, set on success and untouched on an error.
\<close>

definition rolePrefix :: "Role \<Rightarrow> string option" where
  "rolePrefix r = (case r of RoleUser \<Rightarrow> Some ''u___'' | RoleAgent \<Rightarrow> Some ''ag__'' | RoleNone \<Rightarrow> None)"

definition ToIMUserId :: "Actor \<Rightarrow> string \<times> actor_error option" where
  "ToIMUserId a =
     (case rolePrefix (Actor_Role a) of
        None \<Rightarrow> ([], Some ErrInvalidRole)
      | Some p \<Rightarrow> (p @ FormatInt (Actor_Id a), None))"

definition FromIMUserId :: "Actor \<Rightarrow> string \<Rightarrow> Actor \<times> actor_error option" where
  "FromIMUserId a userId =
     (let role = (if take 4 userId = ''u___'' then RoleUser
                  else if take 4 userId = ''ag__'' then RoleAgent else RoleNone)
      in if role = RoleNone then (a, Some ErrInvalidUserId)
         else case ParseInt (drop 4 userId) of
                (n, Some err) \<Rightarrow> (a, Some ErrInvalidUserId)
              | (n, None) \<Rightarrow> (\<lparr>Actor_Id = n, Actor_Role = role\<rparr>, None))"

text \<open>The functions of \<open>sdk/actor.go\<close>, over any implementation of the two methods.\<close>

definition GetUserActorUserId :: "(Actor \<Rightarrow> string \<times> 'e option) \<Rightarrow> int64 \<Rightarrow> string" where
  "GetUserActorUserId toIMUserId userId =
     fst (toIMUserId \<lparr>Actor_Id = userId, Actor_Role = RoleUser\<rparr>)"

definition GetAgentActorUserId :: "(Actor \<Rightarrow> string \<times> 'e option) \<Rightarrow> int64 \<Rightarrow> string" where
  "GetAgentActorUserId toIMUserId agentId =
     fst (toIMUserId \<lparr>Actor_Id = agentId, Actor_Role = RoleAgent\<rparr>)"

definition GetActorFromUserId ::
  "(Actor \<Rightarrow> string \<Rightarrow> Actor \<times> 'e option) \<Rightarrow> string \<Rightarrow> Actor \<times> 'e option" where
  "GetActorFromUserId fromIMUserId userId = fromIMUserId newActor userId"

text \<open>
  \<open>MGetActorFromUserIds\<close>: \<open>ret\<close> is declared \<open>nil\<close> and the loop never appends to
  it.  A \<open>nil\<close> slice is the empty list.
\<close>

fun MGetActorFromUserIds_loop ::
  "(Actor \<Rightarrow> string \<Rightarrow> Actor \<times> 'e option) \<Rightarrow> Actor list \<Rightarrow> string list \<Rightarrow> Actor list \<times> 'e option" where
  "MGetActorFromUserIds_loop fromIMUserId ret [] = (ret, None)"
| "MGetActorFromUserIds_loop fromIMUserId ret (userId # userIds) =
     (case fromIMUserId newActor userId of
        (a, Some err) \<Rightarrow> ([], Some err)
      | (a, None) \<Rightarrow> MGetActorFromUserIds_loop fromIMUserId ret userIds)"

definition MGetActorFromUserIds ::
  "(Actor \<Rightarrow> string \<Rightarrow> Actor \<times> 'e option) \<Rightarrow> string list \<Rightarrow> Actor list \<times> 'e option" where
  "MGetActorFromUserIds fromIMUserId userIds = MGetActorFromUserIds_loop fromIMUserId [] userIds"

section \<open>Token verification (\<open>pkg/jwt\<close>, \<open>internal/middleware/auth.go\<close>)\<close>

record RegisteredClaims =
  Issuer :: string
  Subject :: string
  ExpiresAt :: "int64 option"

record ExternalClaims =
  External_UserId :: string
  External_RegisteredClaims :: RegisteredClaims

record Claims =
  UserId :: string
  PlatformId :: int64
  Claims_RegisteredClaims :: RegisteredClaims

text \<open>
  What the code calls and the sources do not hold: \<open>ParseToken\<close> and
  \<open>ParseExternalToken\<close> of \<open>pkg/jwt\<close>, and the library's \<open>jwt.ParseWithClaims\<close> for
  \<open>ExternalClaims\<close>, which gets the function that picks the key from the claims and
  gives an error or the parsed claims with the token's \<open>Valid\<close> flag.
\<close>

record jwt_functions =
  ParseToken :: "string \<Rightarrow> string \<Rightarrow> string + Claims"
  ParseWithClaims :: "string \<Rightarrow> (ExternalClaims \<Rightarrow> string) \<Rightarrow> string + ExternalClaims \<times> bool"
  ParseExternalToken :: "string \<Rightarrow> string \<Rightarrow> string \<Rightarrow> int64 \<Rightarrow> string + Claims"

definition externalKeyFunc :: "string \<Rightarrow> string \<Rightarrow> ExternalClaims \<Rightarrow> string" where
  "externalKeyFunc nexoSecret externalSecret claims =
     (if Issuer (External_RegisteredClaims claims) = ''external-system'' then externalSecret
      else nexoSecret)"

definition ParseMultiIssuer ::
  "jwt_functions \<Rightarrow> string \<Rightarrow> string \<Rightarrow> string \<Rightarrow> error + Claims" where
  "ParseMultiIssuer J tokenString nexoSecret externalSecret =
     (case ParseToken J tokenString nexoSecret of
        Inr claims \<Rightarrow> Inr claims
      | Inl err0 \<Rightarrow>
          (case ParseWithClaims J tokenString (externalKeyFunc nexoSecret externalSecret) of
             Inl err \<Rightarrow> Inl (OtherError err)
           | Inr (extClaims, valid) \<Rightarrow>
               if valid
               then Inr \<lparr>UserId = External_UserId extClaims, PlatformId = 1,
                         Claims_RegisteredClaims = External_RegisteredClaims extClaims\<rparr>
               else Inl (CodeError ErrTokenInvalid)))"

record AuthConfig =
  JWT_Secret :: string
  ExternalJWT_Enabled :: bool
  ExternalJWT_Secret :: string
  ExternalJWT_DefaultRole :: string
  ExternalJWT_DefaultPlatformId :: int64

definition ParseTokenWithFallback ::
  "jwt_functions \<Rightarrow> string \<Rightarrow> AuthConfig option \<Rightarrow> error + Claims" where
  "ParseTokenWithFallback J tokenString config =
     (case config of
        None \<Rightarrow> Inl (CodeError ErrTokenInvalid)
      | Some cfg \<Rightarrow>
          (case ParseToken J tokenString (JWT_Secret cfg) of
             Inr claims \<Rightarrow> Inr claims
           | Inl err \<Rightarrow>
               if ExternalJWT_Enabled cfg
               then (case ParseExternalToken J tokenString (ExternalJWT_Secret cfg)
                            (ExternalJWT_DefaultRole cfg) (ExternalJWT_DefaultPlatformId cfg) of
                       Inl err' \<Rightarrow> Inl (OtherError err')
                     | Inr claims \<Rightarrow> Inr claims)
               else Inl (OtherError err)))"

section \<open>The connection wrapper (\<open>internal/gateway\<close>, \<open>WebsocketClientConn\<close>)\<close>

text \<open>
  A Go call returns, panics or blocks.  A buffered channel is its queue, its capacity
  and its closed flag.  A \<open>select\<close> with a send case and a \<open>default\<close> sends when
  the queue has room, takes the default when it is full, and panics on a closed
  channel; a plain send would block on a full queue.  \<open>close\<close> panics on a closed
  channel.
\<close>

datatype 'r go = Returns 'r | Panics | Blocks

record 'a chan =
  buffer :: "'a list"
  capacity :: nat
  chan_closed :: bool

definition makeChan :: "nat \<Rightarrow> 'a chan" where
  "makeChan n = \<lparr>buffer = [], capacity = n, chan_closed = False\<rparr>"

definition send :: "'a chan \<Rightarrow> 'a \<Rightarrow> 'a chan go" where
  "send ch v =
     (if chan_closed ch then Panics
      else if length (buffer ch) < capacity ch then Returns (ch\<lparr>buffer := buffer ch @ [v]\<rparr>)
      else Blocks)"

definition selectSendDefault :: "'a chan \<Rightarrow> 'a \<Rightarrow> 'a chan option go" where
  "selectSendDefault ch v =
     (case send ch v of
        Returns ch' \<Rightarrow> Returns (Some ch')
      | Panics \<Rightarrow> Panics
      | Blocks \<Rightarrow> Returns None)"

definition closeChannel :: "'a chan \<Rightarrow> 'a chan go" where
  "closeChannel ch = (if chan_closed ch then Panics else Returns (ch\<lparr>chan_closed := True\<rparr>))"

datatype conn_error = ErrConnClosed | ErrWriteChannelFull

datatype frame = BinaryMessage string | PingMessage | CloseMessage

text \<open>
  The state of a connection: the two channels, the \<open>closed\<close> flag, whether
  \<open>closeOnce\<close> has run, and of the socket the frames written to it, how often it was
  closed, and whether \<open>writeLoop\<close>, its only user, has returned.  \<open>WriteMessage\<close> holds
  \<open>writeMu\<close> for its whole body and \<open>Close\<close> runs its body under \<open>closeOnce\<close>, so each
  is one step on this state.
\<close>

record WebsocketClientConn =
  writeChan :: "string chan"
  closeChan :: "unit chan"
  closed :: bool
  closeOnce :: bool
  socketWrites :: "frame list"
  socketCloses :: nat
  writeLoopDone :: bool

definition NewWebSocketClientConn :: WebsocketClientConn where
  "NewWebSocketClientConn =
     \<lparr>writeChan = makeChan 256, closeChan = makeChan 0, closed = False, closeOnce = False,
      socketWrites = [], socketCloses = 0, writeLoopDone = False\<rparr>"

definition WriteMessage ::
  "WebsocketClientConn \<Rightarrow> string \<Rightarrow> (conn_error option \<times> WebsocketClientConn) go" where
  "WriteMessage c data =
     (if closed c then Returns (Some ErrConnClosed, c)
      else case selectSendDefault (writeChan c) data of
             Returns (Some ch) \<Rightarrow> Returns (None, c\<lparr>writeChan := ch\<rparr>)
           | Returns None \<Rightarrow> Returns (Some ErrWriteChannelFull, c)
           | Panics \<Rightarrow> Panics
           | Blocks \<Rightarrow> Blocks)"

definition Close :: "WebsocketClientConn \<Rightarrow> (conn_error option \<times> WebsocketClientConn) go" where
  "Close c =
     (if closeOnce c then Returns (None, c)
      else case closeChannel (writeChan c) of
             Returns wch \<Rightarrow>
               (case closeChannel (closeChan c) of
                  Returns cch \<Rightarrow>
                    Returns (None, c\<lparr>closeOnce := True, closed := True, writeChan := wch,
                                     closeChan := cch\<rparr>)
                | Panics \<Rightarrow> Panics
                | Blocks \<Rightarrow> Blocks)
           | Panics \<Rightarrow> Panics
           | Blocks \<Rightarrow> Blocks)"

text \<open>
  \<open>writeLoop\<close>, one \<open>select\<close> at a time.  The event says which case runs and, for a
  write to the socket, whether it succeeded; \<open>None\<close> is an event whose case is not
  ready (or a loop that has returned).  Returning runs the deferred
  \<open>c.conn.Close()\<close>.
\<close>

datatype loop_event = FromWriteChan bool | Tick bool | FromCloseChan

definition writeLoopReturn :: "WebsocketClientConn \<Rightarrow> WebsocketClientConn" where
  "writeLoopReturn c = c\<lparr>writeLoopDone := True, socketCloses := socketCloses c + 1\<rparr>"

definition writeLoop_step :: "loop_event \<Rightarrow> WebsocketClientConn \<Rightarrow> WebsocketClientConn option" where
  "writeLoop_step ev c =
     (if writeLoopDone c then None
      else case ev of
             FromWriteChan ok \<Rightarrow>
               (case buffer (writeChan c) of
                  message # rest \<Rightarrow>
                    (let c' = c\<lparr>writeChan := (writeChan c)\<lparr>buffer := rest\<rparr>\<rparr> in
                     if ok then Some (c'\<lparr>socketWrites := socketWrites c' @ [BinaryMessage message]\<rparr>)
                     else Some (writeLoopReturn c'))
                | [] \<Rightarrow>
                    if chan_closed (writeChan c)
                    then Some (writeLoopReturn (c\<lparr>socketWrites := socketWrites c @ [CloseMessage]\<rparr>))
                    else None)
           | Tick ok \<Rightarrow>
               if ok then Some (c\<lparr>socketWrites := socketWrites c @ [PingMessage]\<rparr>)
               else Some (writeLoopReturn c)
           | FromCloseChan \<Rightarrow>
               if chan_closed (closeChan c) then Some (writeLoopReturn c) else None)"

text \<open>
  The life of a connection: any interleaving of calls of \<open>WriteMessage\<close> and \<open>Close\<close>
  and steps of \<open>writeLoop\<close>, from the state \<open>NewWebSocketClientConn\<close> builds.
\<close>

datatype conn_op = CallWriteMessage string | CallClose | LoopStep loop_event

definition conn_step :: "conn_op \<Rightarrow> WebsocketClientConn \<Rightarrow> WebsocketClientConn option" where
  "conn_step op c =
     (case op of
        CallWriteMessage data \<Rightarrow> (case WriteMessage c data of Returns (e, c') \<Rightarrow> Some c' | _ \<Rightarrow> None)
      | CallClose \<Rightarrow> (case Close c of Returns (e, c') \<Rightarrow> Some c' | _ \<Rightarrow> None)
      | LoopStep ev \<Rightarrow> writeLoop_step ev c)"

inductive reachable :: "WebsocketClientConn \<Rightarrow> bool" where
  reachable_new: "reachable NewWebSocketClientConn"
| reachable_step: "reachable c \<Longrightarrow> conn_step op c = Some c' \<Longrightarrow> reachable c'"

text \<open>
  What every reachable state satisfies: the \<open>closed\<close> flag, \<open>closeOnce\<close> and the closed
  flags of the two channels agree, the queue holds at most its 256 frames, and the
  socket has been closed once if \<open>writeLoop\<close> has returned and not at all otherwise.
\<close>

definition conn_invariant :: "WebsocketClientConn \<Rightarrow> bool" where
  "conn_invariant c =
     (closeOnce c = closed c \<and> chan_closed (writeChan c) = closed c \<and>
      chan_closed (closeChan c) = closed c \<and> capacity (writeChan c) = 256 \<and>
      length (buffer (writeChan c)) \<le> capacity (writeChan c) \<and>
      socketCloses c = (if writeLoopDone c then 1 else 0))"

fun CloseTimes :: "nat \<Rightarrow> WebsocketClientConn \<Rightarrow> (conn_error option list \<times> WebsocketClientConn) go" where
  "CloseTimes 0 c = Returns ([], c)"
| "CloseTimes (Suc n) c =
     (case Close c of
        Returns (e, c') \<Rightarrow>
          (case CloseTimes n c' of
             Returns (es, c'') \<Rightarrow> Returns (e # es, c'')
           | Panics \<Rightarrow> Panics
           | Blocks \<Rightarrow> Blocks)
      | Panics \<Rightarrow> Panics
      | Blocks \<Rightarrow> Blocks)"

section \<open>The gateway's dispatch of a WebSocket envelope\<close>

record WSRequest =
  ReqIdentifier :: int32
  MsgIncr :: string
  OperationId :: string
  SendId :: string
  Data :: string

record WSResponse =
  Resp_ReqIdentifier :: int32
  Resp_MsgIncr :: string
  Resp_OperationId :: string
  ErrCode :: int
  ErrMsg :: string
  Resp_Data :: string

definition Contains :: "string \<Rightarrow> string \<Rightarrow> bool" where
  "Contains s substr = list_ex (\<lambda>i. take (length substr) (drop i s) = substr) [0..<Suc (length s)]"

text \<open>
  Modelled from the spec: the gateway's message handling (\<open>WsServer\<close>, its handler
  registry and \<open>ErrInvalidProtocol\<close>) is not among the sources, only its tests are.
  From the spec: a registry built at startup maps \<open>req_identifier\<close> to a handler; an
  opcode that is not registered gets the standard protocol error; every response echoes
  \<open>req_identifier\<close> and \<open>msg_incr\<close>; \<open>err_code = 0\<close> means success.  A handler works on
  the gateway's state \<open>'s\<close> and gives data or an error (code and message).  The
  message of \<open>ErrInvalidProtocol\<close> is the one scenario S3 and the tests look for; its
  numeric code stands in neither the spec nor the sources and is a parameter.
\<close>

record gateway_error =
  code :: int
  message :: string

type_synonym 's ws_handler = "'s \<Rightarrow> WSRequest \<Rightarrow> (gateway_error + string) \<times> 's"

definition ErrInvalidProtocol :: "int \<Rightarrow> gateway_error" where
  "ErrInvalidProtocol errCode = \<lparr>code = errCode, message = ''invalid protocol''\<rparr>"

definition errorResponse :: "WSRequest \<Rightarrow> gateway_error \<Rightarrow> WSResponse" where
  "errorResponse req err =
     \<lparr>Resp_ReqIdentifier = ReqIdentifier req, Resp_MsgIncr = MsgIncr req,
      Resp_OperationId = OperationId req, ErrCode = code err, ErrMsg = message err,
      Resp_Data = []\<rparr>"

definition successResponse :: "WSRequest \<Rightarrow> string \<Rightarrow> WSResponse" where
  "successResponse req data =
     \<lparr>Resp_ReqIdentifier = ReqIdentifier req, Resp_MsgIncr = MsgIncr req,
      Resp_OperationId = OperationId req, ErrCode = 0, ErrMsg = [], Resp_Data = data\<rparr>"

definition handleMessage ::
  "int \<Rightarrow> (int32 \<rightharpoonup> 's ws_handler) \<Rightarrow> 's \<Rightarrow> WSRequest \<Rightarrow> WSResponse \<times> 's" where
  "handleMessage invalidProtocolCode registry st req =
     (case registry (ReqIdentifier req) of
        None \<Rightarrow> (errorResponse req (ErrInvalidProtocol invalidProtocolCode), st)
      | Some handler \<Rightarrow>
          (case handler st req of
             (Inl err, st') \<Rightarrow> (errorResponse req err, st')
           | (Inr data, st') \<Rightarrow> (successResponse req data, st')))"

section \<open>Example inputs\<close>

text \<open>
  A repository over a storage that logs the column updates it is asked to write: the
  user has three conversations, of which a page query returns as many as it is asked
  for; the conversation's maximal sequence number is 10, and the user has read up to 2.
\<close>

definition example_conversation :: Conversation where
  "example_conversation =
     \<lparr>ConversationId = ''c1'', ConversationType = 1, PeerUserId = ''u2'', GroupId = [],
      RecvMsgOpt = 0, IsPinned = False, UpdatedAt = 1700000000\<rparr>"

definition example_row :: "string \<Rightarrow> int64 \<Rightarrow> ConversationWithSeq" where
  "example_row conversationId updatedAt =
     \<lparr>ConversationId = conversationId, ConversationType = 1, PeerUserId = ''u2'', GroupId = [],
      RecvMsgOpt = 0, IsPinned = False, UpdatedAt = updatedAt, UnreadCount = 0, MaxSeq = 0,
      ReadSeq = 0\<rparr>"

definition example_rows :: "ConversationWithSeq list" where
  "example_rows = [example_row ''c3'' 30, example_row ''c2'' 20, example_row ''c1'' 10]"

definition example_repos :: "((string \<times> update_value) list, unit, unit) Repositories" where
  "example_repos =
     \<lparr>GetUserConversationsWithSeq = (\<lambda>u. ([], None)),
      GetUserConversationsWithSeqPage = (\<lambda>u n t c. (take (nat n) example_rows, None)),
      BatchGetByConvSeq = (\<lambda>m. (Map.empty, None)),
      ToMessageInfo = (\<lambda>m. m),
      GetByOwnerAndConvId = (\<lambda>u c. (Some example_conversation, None)),
      GetConversationSeqInfo = (\<lambda>c. (Some \<lparr>SeqConversation_MaxSeq = 10\<rparr>, None)),
      GetSeqUser = (\<lambda>u c. (Some \<lparr>SeqUser_ReadSeq = 2\<rparr>, None)),
      Update = (\<lambda>db u c updates. (updates @ db, None))\<rparr>"









text \<open>
  A token the native parser refuses and the library accepts under the external
  secret, with the claims of the external issuer.
\<close>

definition example_external_claims :: ExternalClaims where
  "example_external_claims =
     \<lparr>External_UserId = ''ext-42'',
      External_RegisteredClaims = \<lparr>Issuer = ''external-system'', Subject = [], ExpiresAt = None\<rparr>\<rparr>"

definition example_jwt :: jwt_functions where
  "example_jwt =
     \<lparr>ParseToken = (\<lambda>tokenString secret. Inl ''token signature is invalid''),
      ParseWithClaims = (\<lambda>tokenString keyFunc.
         if keyFunc example_external_claims = ''external-secret''
         then Inr (example_external_claims, True)
         else Inl ''token signature is invalid''),
      ParseExternalToken = (\<lambda>tokenString secret role platformId.
         Inr \<lparr>UserId = ''ext-42'', PlatformId = platformId,
               Claims_RegisteredClaims = External_RegisteredClaims example_external_claims\<rparr>)\<rparr>"

text \<open>A new connection after \<open>n\<close> frames were queued and none was written yet.\<close>

fun example_after_writes :: "nat \<Rightarrow> WebsocketClientConn" where
  "example_after_writes 0 = NewWebSocketClientConn"
| "example_after_writes (Suc n) =
     (case WriteMessage (example_after_writes n) ''frame'' of
        Returns (e, c) \<Rightarrow> c
      | _ \<Rightarrow> example_after_writes n)"

section \<open>\<open>MGetActorFromUserIds\<close> returns no actors\<close>

lemma MGetActorFromUserIds_loop_fst: "fst (MGetActorFromUserIds_loop parse [] us) = []"
  by (induction us) (auto split: prod.splits option.splits)

lemma MGetActorFromUserIds_loop_ok:
  "(\<forall>u\<in>set us. snd (parse newActor u) = None) \<Longrightarrow>
     MGetActorFromUserIds_loop parse ret us = (ret, None)"
  by (induction us) (auto split: prod.splits option.splits)

lemma MGetActorFromUserIds_loop_err:
  "(\<exists>u\<in>set us. snd (parse newActor u) \<noteq> None) \<Longrightarrow>
     snd (MGetActorFromUserIds_loop parse ret us) \<noteq> None"
  by (induction us) (auto split: prod.splits option.splits)

text \<open>
  Claim C10.  Whatever \<open>FromIMUserId\<close> does: the actor list \<open>MGetActorFromUserIds\<close>
  returns is always empty (\<open>nil\<close>).  When every element of the input parses, the result
  is the empty list and no error, so for a non-empty input the list has not the
  input's length; when some element does not parse, the error is not \<open>nil\<close>.
\<close>

theorem MGetActorFromUserIds_returns_nil:
  "fst (MGetActorFromUserIds parse userIds) = [] \<and>
   ((\<forall>u\<in>set userIds. snd (parse newActor u) = None) \<longrightarrow>
      MGetActorFromUserIds parse userIds = ([], None)) \<and>
   ((\<forall>u\<in>set userIds. snd (parse newActor u) = None) \<and> userIds \<noteq> [] \<longrightarrow>
      length (fst (MGetActorFromUserIds parse userIds)) \<noteq> length userIds) \<and>
   ((\<exists>u\<in>set userIds. snd (parse newActor u) \<noteq> None) \<longrightarrow>
      snd (MGetActorFromUserIds parse userIds) \<noteq> None)"
  unfolding MGetActorFromUserIds_def
  using MGetActorFromUserIds_loop_fst [of parse userIds]
    MGetActorFromUserIds_loop_ok [of userIds parse "[]"]
    MGetActorFromUserIds_loop_err [of userIds parse "[]"]
  by auto

text \<open>
  The inputs of \<open>sdk/actor_test.go\<close>: the two well-formed ids give no actors, and the
  list with \<open>bad\<close> gives an error.
\<close>

theorem MGetActorFromUserIds_returns_nil_witness:
  "MGetActorFromUserIds FromIMUserId [''u___12'', ''ag__34''] = ([], None) \<and>
   length (fst (MGetActorFromUserIds FromIMUserId [''u___12'', ''ag__34''])) \<noteq>
     length [''u___12'', ''ag__34''] \<and>
   snd (MGetActorFromUserIds FromIMUserId [''u___1'', ''bad'']) \<noteq> None"
proof -
  have ok: "\<forall>u\<in>set [''u___12'', ''ag__34'']. snd (FromIMUserId newActor u) = None"
    by code_simp
  have ne: "[''u___12'', ''ag__34''] \<noteq> []"
    by simp
  have bad: "\<exists>u\<in>set [''u___1'', ''bad'']. snd (FromIMUserId newActor u) \<noteq> None"
    by code_simp
  note T1 = MGetActorFromUserIds_returns_nil [of FromIMUserId "[''u___12'', ''ag__34'']"]
  note T2 = MGetActorFromUserIds_returns_nil [of FromIMUserId "[''u___1'', ''bad'']"]
  have A: "MGetActorFromUserIds FromIMUserId [''u___12'', ''ag__34''] = ([], None)"
    using T1 ok by blast
  have B: "length (fst (MGetActorFromUserIds FromIMUserId [''u___12'', ''ag__34''])) \<noteq>
      length [''u___12'', ''ag__34'']"
    using T1 ok ne by blast
  have C: "snd (MGetActorFromUserIds FromIMUserId [''u___1'', ''bad'']) \<noteq> None"
    using T2 bad by blast
  show ?thesis using A B C by blast
qed

section \<open>\<open>UpdateConversation\<close>: the patch decides the update\<close>

text \<open>
  Claim C8.  For every repository, storage, owner and conversation: with neither field
  present \<open>UpdateConversation\<close> succeeds and returns the storage it was given, whatever
  \<open>convRepo.Update\<close> would do (it is not called); with one field present the update it
  passes to \<open>convRepo.Update\<close> holds that column alone, and with both, both.
\<close>

theorem UpdateConversation_patch:
  "UpdateConversation R db userId conversationId \<lparr>Req_RecvMsgOpt = None, Req_IsPinned = None\<rparr> =
     (db, None) \<and>
   UpdateConversation R db userId conversationId \<lparr>Req_RecvMsgOpt = Some v, Req_IsPinned = None\<rparr> =
     (case Update R db userId conversationId [(''recv_msg_opt'', Int32Value v)] of
        (db', e) \<Rightarrow> (db', map_option (\<lambda>err. CodeError ErrInternalServer) e)) \<and>
   UpdateConversation R db userId conversationId \<lparr>Req_RecvMsgOpt = None, Req_IsPinned = Some b\<rparr> =
     (case Update R db userId conversationId [(''is_pinned'', BoolValue b)] of
        (db', e) \<Rightarrow> (db', map_option (\<lambda>err. CodeError ErrInternalServer) e)) \<and>
   UpdateConversation R db userId conversationId \<lparr>Req_RecvMsgOpt = Some v, Req_IsPinned = Some b\<rparr> =
     (case Update R db userId conversationId
             [(''recv_msg_opt'', Int32Value v), (''is_pinned'', BoolValue b)] of
        (db', e) \<Rightarrow> (db', map_option (\<lambda>err. CodeError ErrInternalServer) e))"
  by (auto simp: UpdateConversation_def updatesOf_def split: prod.splits option.splits)

text \<open>
  On a storage that logs every update written to it: the empty patch leaves the log as
  it was, and a patch of \<open>recv_msg_opt\<close> alone logs that column alone.
\<close>

theorem UpdateConversation_patch_witness:
  "UpdateConversation example_repos [(''is_pinned'', BoolValue False)] ''u1'' ''c1''
      \<lparr>Req_RecvMsgOpt = None, Req_IsPinned = None\<rparr> = ([(''is_pinned'', BoolValue False)], None) \<and>
   UpdateConversation example_repos [] ''u1'' ''c1'' \<lparr>Req_RecvMsgOpt = Some 2, Req_IsPinned = None\<rparr> =
      ([(''recv_msg_opt'', Int32Value 2)], None)"
  using UpdateConversation_patch [of example_repos "[(''is_pinned'', BoolValue False)]" "''u1''" "''c1''" 2 True]
    UpdateConversation_patch [of example_repos "[]" "''u1''" "''c1''" 2 True]
  by (simp add: example_repos_def)

section \<open>Internal service authentication: the allow-list and the decision\<close>

subsection \<open>Trimming and case folding\<close>





lemma of_char_range: "0 \<le> (of_char c :: int) \<and> (of_char c :: int) < 256"
  by (metis of_char_mod_256 pos_mod_bound pos_mod_sign zero_less_numeral)


lemma toLower_idem: "toLowerByte (toLowerByte c) = toLowerByte c"
  using of_char_range [of c]
  by (auto simp: toLowerByte_def Let_def)





subsection \<open>The decision of \<open>validateInternalRequest\<close>, check by check\<close>




lemma validate_cases:
  "validateInternalRequest K config now c = Inl ErrForbidden \<or>
   validateInternalRequest K config now c = Inl ErrUnauthorized \<or>
   (\<exists>name. validateInternalRequest K config now c = Inr name)"
  by (auto simp: validateInternalRequest_def Let_def split: prod.splits option.splits)








section \<open>The unread count of the conversation read operations\<close>





lemma GetMaxReadSeq_values:
  assumes "GetMaxReadSeq R userId conversationId = Some (Inr (maxSeq, readSeq))"
  shows "(\<exists>sc. GetConversationSeqInfo R conversationId = (Some sc, None) \<and> maxSeq = SeqConversation_MaxSeq sc) \<and>
         readSeq = (case fst (GetSeqUser R userId conversationId) of
                      Some su \<Rightarrow> SeqUser_ReadSeq su | None \<Rightarrow> 0)"
  using assms
  by (auto simp: GetMaxReadSeq_def Let_def split: prod.splits option.splits)




section \<open>The conversation list page\<close>


lemma clamp_range:
  "1 \<le> (if reqLimit \<le> 0 then 20 else if reqLimit > 100 then 100 else reqLimit :: int) \<and>
   (if reqLimit \<le> 0 then 20 else if reqLimit > 100 then 100 else reqLimit :: int) \<le> 100"
  by auto











section \<open>The multi-issuer token verifier\<close>

text \<open>
  Claim C6, as the code behaves.  When the native parser refuses the token and
  \<open>ParseMultiIssuer\<close> accepts it, the library has parsed it as valid external claims
  under the key \<open>externalKeyFunc\<close> picks (the external secret for the issuer
  \<open>external-system\<close>, the native secret otherwise); the resulting claims carry the
  external \<open>user_id\<close> and registered claims unchanged, and the platform is the
  constant 1, which is not the Web platform (5).  \<open>ParseTokenWithFallback\<close>, the
  verifier the middleware calls, hands the configured default role and platform to
  \<open>ParseExternalToken\<close> and returns its claims.
\<close>

theorem ParseMultiIssuer_external_claims:
  "(ParseToken J tokenString nexoSecret = Inl err0 \<and>
    ParseMultiIssuer J tokenString nexoSecret externalSecret = Inr claims \<longrightarrow>
      (\<exists>extClaims.
         ParseWithClaims J tokenString (externalKeyFunc nexoSecret externalSecret) =
           Inr (extClaims, True) \<and>
         UserId claims = External_UserId extClaims \<and>
         Claims_RegisteredClaims claims = External_RegisteredClaims extClaims) \<and>
      PlatformId claims = 1 \<and> PlatformId claims \<noteq> WebPlatformId) \<and>
   externalKeyFunc nexoSecret externalSecret extClaims0 =
     (if Issuer (External_RegisteredClaims extClaims0) = ''external-system'' then externalSecret
      else nexoSecret) \<and>
   (ParseToken J tokenString (JWT_Secret cfg) = Inl err0 \<and> ExternalJWT_Enabled cfg \<and>
    ParseTokenWithFallback J tokenString (Some cfg) = Inr claims \<longrightarrow>
      ParseExternalToken J tokenString (ExternalJWT_Secret cfg) (ExternalJWT_DefaultRole cfg)
        (ExternalJWT_DefaultPlatformId cfg) = Inr claims)"
  by (auto simp: ParseMultiIssuer_def ParseTokenWithFallback_def externalKeyFunc_def WebPlatformId_def
      split: sum.splits prod.splits if_splits)

text \<open>An external token for \<open>ext-42\<close>: the user id is kept and the platform is 1.\<close>

theorem ParseMultiIssuer_external_claims_witness:
  "ParseMultiIssuer example_jwt ''tok'' ''nexo-secret'' ''external-secret'' =
     Inr \<lparr>UserId = ''ext-42'', PlatformId = 1,
           Claims_RegisteredClaims = External_RegisteredClaims example_external_claims\<rparr> \<and>
   PlatformId \<lparr>UserId = ''ext-42'', PlatformId = 1,
           Claims_RegisteredClaims = External_RegisteredClaims example_external_claims\<rparr> \<noteq> WebPlatformId"
proof -
  let ?claims = "\<lparr>UserId = ''ext-42'', PlatformId = 1,
           Claims_RegisteredClaims = External_RegisteredClaims example_external_claims\<rparr>"
  have a: "ParseToken example_jwt ''tok'' ''nexo-secret'' = Inl ''token signature is invalid''"
    by code_simp
  have b: "ParseMultiIssuer example_jwt ''tok'' ''nexo-secret'' ''external-secret'' = Inr ?claims"
    by code_simp
  have c: "PlatformId ?claims \<noteq> WebPlatformId"
    using ParseMultiIssuer_external_claims
      [of example_jwt "''tok''" "''nexo-secret''" "''token signature is invalid''"
         "''external-secret''" ?claims]
      a b by blast
  show ?thesis using b c by blast
qed

text \<open>
  The claim as the spec states it fails: the accepted external token gets platform 1
  and the Web platform is 5.
\<close>

theorem ParseMultiIssuer_claim_counterexample:
  "ParseMultiIssuer example_jwt ''tok'' ''nexo-secret'' ''external-secret'' =
     Inr \<lparr>UserId = ''ext-42'', PlatformId = 1,
           Claims_RegisteredClaims = External_RegisteredClaims example_external_claims\<rparr> \<and>
   WebPlatformId = 5 \<and> (1 :: int64) \<noteq> WebPlatformId"
  by code_simp

section \<open>The connection wrapper: \<open>WriteMessage\<close> and \<open>Close\<close>\<close>

lemma WriteMessage_result:
  assumes "conn_invariant c"
  shows "WriteMessage c data =
     Returns (if closed c then (Some ErrConnClosed, c)
              else if length (buffer (writeChan c)) < capacity (writeChan c)
              then (None, c\<lparr>writeChan := (writeChan c)\<lparr>buffer := buffer (writeChan c) @ [data]\<rparr>\<rparr>)
              else (Some ErrWriteChannelFull, c))"
  using assms
  by (simp add: conn_invariant_def WriteMessage_def selectSendDefault_def send_def)

lemma Close_result:
  assumes "conn_invariant c"
  shows "Close c =
     Returns (None, if closeOnce c then c
                    else c\<lparr>closeOnce := True, closed := True,
                           writeChan := (writeChan c)\<lparr>chan_closed := True\<rparr>,
                           closeChan := (closeChan c)\<lparr>chan_closed := True\<rparr>\<rparr>)"
  using assms
  by (simp add: conn_invariant_def Close_def closeChannel_def)

lemma invariant_new: "conn_invariant NewWebSocketClientConn"
  by (simp add: conn_invariant_def NewWebSocketClientConn_def makeChan_def)

lemma invariant_WriteMessage:
  assumes "conn_invariant c" "WriteMessage c data = Returns (e, c')"
  shows "conn_invariant c'"
  using assms(2) unfolding WriteMessage_result [OF assms(1)]
  using assms(1) by (auto simp: conn_invariant_def split: if_splits)

lemma invariant_Close:
  assumes "conn_invariant c" "Close c = Returns (e, c')"
  shows "conn_invariant c'"
  using assms(2) unfolding Close_result [OF assms(1)]
  using assms(1) by (auto simp: conn_invariant_def split: if_splits)

lemma invariant_writeLoop:
  assumes "conn_invariant c" "writeLoop_step ev c = Some c'"
  shows "conn_invariant c'"
  using assms
  by (cases ev)
     (auto simp: conn_invariant_def writeLoop_step_def writeLoopReturn_def Let_def
           split: if_splits list.splits)

lemma invariant_step:
  assumes "conn_invariant c" "conn_step op c = Some c'"
  shows "conn_invariant c'"
proof (cases op)
  case (CallWriteMessage data)
  then show ?thesis
    using assms invariant_WriteMessage [of c data]
    by (auto simp: conn_step_def split: go.splits)
next
  case CallClose
  then show ?thesis
    using assms invariant_Close [of c]
    by (auto simp: conn_step_def split: go.splits)
next
  case (LoopStep ev)
  then show ?thesis
    using assms invariant_writeLoop [of c ev c']
    by (simp add: conn_step_def)
qed

lemma reachable_invariant: "reachable c \<Longrightarrow> conn_invariant c"
  by (induction rule: reachable.induct) (auto intro: invariant_new invariant_step)

lemma CloseTimes_closed:
  assumes "conn_invariant c" "closeOnce c"
  shows "CloseTimes n c = Returns (replicate n None, c)"
proof (induction n)
  case 0
  show ?case by simp
next
  case (Suc n)
  have "Close c = Returns (None, c)"
    using Close_result [OF assms(1)] assms(2) by simp
  then show ?case using Suc by simp
qed

lemma reachable_example_after_writes: "reachable (example_after_writes n)"
proof (induction n)
  case 0
  show ?case by (simp add: reachable_new)
next
  case (Suc n)
  show ?case
  proof (cases "WriteMessage (example_after_writes n) ''frame''")
    case (Returns r)
    obtain e c where r: "r = (e, c)" by (cases r) auto
    have "conn_step (CallWriteMessage ''frame'') (example_after_writes n) = Some c"
      by (simp add: conn_step_def Returns r)
    then have "reachable c" using Suc reachable_step by blast
    then show ?thesis by (simp add: Returns r)
  next
    case Panics
    then show ?thesis using Suc by simp
  next
    case Blocks
    then show ?thesis using Suc by simp
  qed
qed

text \<open>
  Claim C7.  In every state a connection can reach: \<open>WriteMessage\<close> returns (it
  neither blocks on the channel nor panics on a closed one); on a full queue it returns
  \<open>ErrWriteChannelFull\<close> and leaves the connection as it was, with room it queues the
  frame, and on a closed connection it returns \<open>ErrConnClosed\<close>.  \<open>Close\<close> returns
  \<open>nil\<close> and leaves both channels closed; the state it leaves is the state of every
  later \<open>Close\<close>, which returns \<open>nil\<close> again and closes nothing a second time (any
  number of calls gives \<open>nil\<close> each time and the state of the first), and there
  \<open>WriteMessage\<close> returns \<open>ErrConnClosed\<close>.  The socket is closed by the deferred
  call of \<open>writeLoop\<close>: never more than once, exactly once when the loop has returned,
  and after \<open>Close\<close> the loop can return through the closed \<open>closeChan\<close>, closing
  the socket that one time, after which it takes no step.
\<close>

theorem WriteMessage_Close_contract:
  assumes "reachable c"
  shows
    "(\<exists>e c'. WriteMessage c data = Returns (e, c')) \<and>
     (\<not> closed c \<and> length (buffer (writeChan c)) = capacity (writeChan c) \<longrightarrow>
        WriteMessage c data = Returns (Some ErrWriteChannelFull, c)) \<and>
     (\<not> closed c \<and> length (buffer (writeChan c)) < capacity (writeChan c) \<longrightarrow>
        WriteMessage c data =
          Returns (None, c\<lparr>writeChan := (writeChan c)\<lparr>buffer := buffer (writeChan c) @ [data]\<rparr>\<rparr>)) \<and>
     (closed c \<longrightarrow> WriteMessage c data = Returns (Some ErrConnClosed, c)) \<and>
     (\<exists>c1. Close c = Returns (None, c1) \<and> reachable c1 \<and>
           closed c1 \<and> chan_closed (writeChan c1) \<and> chan_closed (closeChan c1) \<and>
           (closed c \<longrightarrow> c1 = c) \<and>
           WriteMessage c1 data = Returns (Some ErrConnClosed, c1) \<and>
           Close c1 = Returns (None, c1) \<and>
           CloseTimes (Suc n) c = Returns (replicate (Suc n) None, c1) \<and>
           socketCloses c1 = socketCloses c \<and>
           (\<not> writeLoopDone c1 \<longrightarrow>
              (\<exists>c2. writeLoop_step FromCloseChan c1 = Some c2 \<and> writeLoopDone c2 \<and>
                    socketCloses c2 = 1 \<and> writeLoop_step ev c2 = None))) \<and>
     closed c = chan_closed (writeChan c) \<and>
     socketCloses c \<le> 1 \<and> (writeLoopDone c = (socketCloses c = 1))"
proof -
  have i: "conn_invariant c" using assms by (rule reachable_invariant)
  note w = WriteMessage_result [OF i, of data]
  have 1: "\<exists>e c'. WriteMessage c data = Returns (e, c')"
    unfolding w by (metis surj_pair)
  have 2: "\<not> closed c \<and> length (buffer (writeChan c)) = capacity (writeChan c) \<longrightarrow>
        WriteMessage c data = Returns (Some ErrWriteChannelFull, c)"
    unfolding w by simp
  have 3: "\<not> closed c \<and> length (buffer (writeChan c)) < capacity (writeChan c) \<longrightarrow>
        WriteMessage c data =
          Returns (None, c\<lparr>writeChan := (writeChan c)\<lparr>buffer := buffer (writeChan c) @ [data]\<rparr>\<rparr>)"
    unfolding w by simp
  have 4: "closed c \<longrightarrow> WriteMessage c data = Returns (Some ErrConnClosed, c)"
    unfolding w by simp
  define c1 where "c1 = (if closeOnce c then c
                    else c\<lparr>closeOnce := True, closed := True,
                           writeChan := (writeChan c)\<lparr>chan_closed := True\<rparr>,
                           closeChan := (closeChan c)\<lparr>chan_closed := True\<rparr>\<rparr>)"
  have cl: "Close c = Returns (None, c1)"
    unfolding c1_def by (rule Close_result [OF i])
  have "conn_step CallClose c = Some c1" by (simp add: conn_step_def cl)
  then have r1: "reachable c1" using assms reachable_step by blast
  have i1: "conn_invariant c1" using r1 by (rule reachable_invariant)
  have f1: "closed c1 \<and> closeOnce c1 \<and> chan_closed (writeChan c1) \<and> chan_closed (closeChan c1)"
    using i by (auto simp: c1_def conn_invariant_def)
  have same: "closed c \<longrightarrow> c1 = c" using i by (simp add: c1_def conn_invariant_def)
  have w1: "WriteMessage c1 data = Returns (Some ErrConnClosed, c1)"
    using WriteMessage_result [OF i1, of data] f1 by simp
  have cl1: "Close c1 = Returns (None, c1)"
    using Close_result [OF i1] f1 by simp
  have ct: "CloseTimes (Suc n) c = Returns (replicate (Suc n) None, c1)"
    using cl CloseTimes_closed [OF i1, of n] f1 by simp
  have sc: "socketCloses c1 = socketCloses c" by (simp add: c1_def)
  have lp: "\<not> writeLoopDone c1 \<longrightarrow>
              (\<exists>c2. writeLoop_step FromCloseChan c1 = Some c2 \<and> writeLoopDone c2 \<and>
                    socketCloses c2 = 1 \<and> writeLoop_step ev c2 = None)"
    using i1 f1 by (auto simp: writeLoop_step_def writeLoopReturn_def conn_invariant_def)
  have 5: "\<exists>c1. Close c = Returns (None, c1) \<and> reachable c1 \<and>
           closed c1 \<and> chan_closed (writeChan c1) \<and> chan_closed (closeChan c1) \<and>
           (closed c \<longrightarrow> c1 = c) \<and>
           WriteMessage c1 data = Returns (Some ErrConnClosed, c1) \<and>
           Close c1 = Returns (None, c1) \<and>
           CloseTimes (Suc n) c = Returns (replicate (Suc n) None, c1) \<and>
           socketCloses c1 = socketCloses c \<and>
           (\<not> writeLoopDone c1 \<longrightarrow>
              (\<exists>c2. writeLoop_step FromCloseChan c1 = Some c2 \<and> writeLoopDone c2 \<and>
                    socketCloses c2 = 1 \<and> writeLoop_step ev c2 = None))"
    using cl r1 f1 same w1 cl1 ct sc lp by blast
  have 6: "closed c = chan_closed (writeChan c)"
    using i by (simp add: conn_invariant_def)
  have 7: "socketCloses c \<le> 1 \<and> (writeLoopDone c = (socketCloses c = 1))"
    using i by (simp add: conn_invariant_def)
  show ?thesis using 1 2 3 4 5 6 7 by blast
qed

lemma example_after_writes_state:
  "n \<le> 256 \<Longrightarrow>
     example_after_writes n =
       NewWebSocketClientConn
         \<lparr>writeChan := \<lparr>buffer = replicate n ''frame'', capacity = 256, chan_closed = False\<rparr>\<rparr>"
proof (induction n)
  case 0
  show ?case by (simp add: NewWebSocketClientConn_def makeChan_def)
next
  case (Suc n)
  then have s: "example_after_writes n =
       NewWebSocketClientConn
         \<lparr>writeChan := \<lparr>buffer = replicate n ''frame'', capacity = 256, chan_closed = False\<rparr>\<rparr>"
    by simp
  have n: "n < 256" using Suc.prems by simp
  show ?case
    unfolding example_after_writes.simps s
    using n
    by (simp add: WriteMessage_def selectSendDefault_def send_def NewWebSocketClientConn_def
        replicate_append_same)
qed

lemma example_full:
  "\<not> closed (example_after_writes 256) \<and>
   length (buffer (writeChan (example_after_writes 256))) =
     capacity (writeChan (example_after_writes 256))"
  by (simp add: example_after_writes_state NewWebSocketClientConn_def)

text \<open>
  A new connection queues a frame; with 256 frames queued the next one is refused with
  \<open>ErrWriteChannelFull\<close> and the connection stays as it is; and after \<open>Close\<close> a
  write fails with \<open>ErrConnClosed\<close>, as \<open>TestWebsocketClientConn_WriteAfterClose\<close>
  expects, three calls of \<open>Close\<close> returning \<open>nil\<close> each.
\<close>

theorem WriteMessage_Close_contract_witness:
  "WriteMessage NewWebSocketClientConn ''hello'' =
     Returns (None, NewWebSocketClientConn
       \<lparr>writeChan := (writeChan NewWebSocketClientConn)
          \<lparr>buffer := buffer (writeChan NewWebSocketClientConn) @ [''hello'']\<rparr>\<rparr>) \<and>
   WriteMessage (example_after_writes 256) ''late'' =
     Returns (Some ErrWriteChannelFull, example_after_writes 256) \<and>
   socketCloses (example_after_writes 256) \<le> 1 \<and>
   (\<exists>c1. Close NewWebSocketClientConn = Returns (None, c1) \<and>
         WriteMessage c1 ''should-fail'' = Returns (Some ErrConnClosed, c1) \<and>
         CloseTimes 3 NewWebSocketClientConn = Returns ([None, None, None], c1))"
proof -
  have r0: "reachable NewWebSocketClientConn" by (rule reachable_new)
  have r1: "reachable (example_after_writes 256)" by (rule reachable_example_after_writes)
  have o: "\<not> closed NewWebSocketClientConn \<and>
      length (buffer (writeChan NewWebSocketClientConn)) < capacity (writeChan NewWebSocketClientConn)"
    by (simp add: NewWebSocketClientConn_def makeChan_def)
  note T0 = WriteMessage_Close_contract [OF r0, of "''hello''" 0 FromCloseChan]
  note T1 = WriteMessage_Close_contract [OF r1, of "''late''" 0 FromCloseChan]
  have A: "WriteMessage NewWebSocketClientConn ''hello'' =
     Returns (None, NewWebSocketClientConn
       \<lparr>writeChan := (writeChan NewWebSocketClientConn)
          \<lparr>buffer := buffer (writeChan NewWebSocketClientConn) @ [''hello'']\<rparr>\<rparr>)"
    using T0 o by blast
  have B: "WriteMessage (example_after_writes 256) ''late'' =
     Returns (Some ErrWriteChannelFull, example_after_writes 256)"
    using T1 example_full by blast
  have C: "socketCloses (example_after_writes 256) \<le> 1"
    using T1 by blast
  have n: "Suc 2 = 3" "replicate 3 (None :: conn_error option) = [None, None, None]"
    by (simp_all add: numeral_3_eq_3)
  note T2 = WriteMessage_Close_contract [OF r0, of "''should-fail''" 2 FromCloseChan]
  note T2c = T2 [THEN conjunct2, THEN conjunct2, THEN conjunct2, THEN conjunct2, THEN conjunct1]
  from T2c obtain c1 where
    d1: "Close NewWebSocketClientConn = Returns (None, c1)" and
    d2: "WriteMessage c1 ''should-fail'' = Returns (Some ErrConnClosed, c1)" and
    d3: "CloseTimes (Suc 2) NewWebSocketClientConn = Returns (replicate (Suc 2) None, c1)"
    by (elim exE conjE)
  have d3': "CloseTimes 3 NewWebSocketClientConn = Returns ([None, None, None], c1)"
    using d3 unfolding n .
  have D: "\<exists>c1. Close NewWebSocketClientConn = Returns (None, c1) \<and>
         WriteMessage c1 ''should-fail'' = Returns (Some ErrConnClosed, c1) \<and>
         CloseTimes 3 NewWebSocketClientConn = Returns ([None, None, None], c1)"
    using d1 d2 d3' by (intro exI conjI)
  show ?thesis using A B C D by blast
qed

end
